theory Spec2Isabelle
  imports Complex_Main "HOL-Library.Sublist"
begin

section \<open>JavaScript numbers and errors\<close>

text \<open>
  The \<open>degrees\<close> option of the rotation operation is a JavaScript number. Its
  validator rejects every value \<open>v\<close> with \<open>v % 90 !== 0\<close>, so every degrees value
  an operation can hold is a whole number; the model takes whole numbers (\<open>int\<close>).
  JavaScript's \<open>%\<close> truncates: the result has the sign of the dividend
  (\<open>-90 % 360\<close> is \<open>-90\<close>, not \<open>270\<close>).
\<close>

definition js_rem :: "int \<Rightarrow> int \<Rightarrow> int" where
  "js_rem a b = sgn a * (\<bar>a\<bar> mod \<bar>b\<bar>)"

text \<open>A thrown \<open>Error\<close> carries its message; a \<open>TypeError\<close> is what reading a
  property of \<open>null\<close> or \<open>undefined\<close> throws (its message depends on the engine).\<close>

datatype error = Error string | TypeError

section \<open>Vectors, canvases and the object store\<close>

text \<open>
  A \<open>Vector2\<close> is a mutable object with the two number fields \<open>x\<close> and \<open>y\<close>
  (here \<open>vec_x\<close>, \<open>vec_y\<close>). Vectors live in a store and are passed by reference:
  an address is an index into the store, \<open>new Vector2 (a, b)\<close> appends a cell.
\<close>

record Vector2 =
  vec_x :: real
  vec_y :: real

type_synonym addr = nat
type_synonym store = "Vector2 list"

definition new_Vector2 :: "real \<Rightarrow> real \<Rightarrow> store \<Rightarrow> addr \<times> store" where
  "new_Vector2 a b h = (length h, h @ [\<lparr>vec_x = a, vec_y = b\<rparr>])"

text \<open>
  A canvas has a width, a height and the calls its 2D context has received so far
  (its drawn content). \<open>drawImage\<close> takes another canvas as its image.
\<close>

datatype ctx_call =
    Save
  | Translate real real
  | Rotate real
  | DrawImage canvas real real
  | Restore
and canvas = Canvas (width: real) (height: real) (calls: "ctx_call list")

definition set_width :: "real \<Rightarrow> canvas \<Rightarrow> canvas" where
  "set_width w c = Canvas w (height c) (calls c)"

definition set_height :: "real \<Rightarrow> canvas \<Rightarrow> canvas" where
  "set_height h c = Canvas (width c) h (calls c)"

definition ctx :: "ctx_call \<Rightarrow> canvas \<Rightarrow> canvas" where
  "ctx e c = Canvas (width c) (height c) (calls c @ [e])"

section \<open>The rotation operation\<close>

text \<open>
  \<open>this._options\<close> of a rotation operation holds the one option \<open>degrees\<close>.
  A method runs in an environment: the operation's options, the renderer it is given
  and the store of vectors. Every method returns the environment it leaves behind.
\<close>

record options =
  degrees :: int

record 'r env =
  options :: options
  renderer :: 'r
  heap :: store

text \<open>
  \<open>getNewDimensions (renderer, dimensions)\<close>. The renderer is only asked for its
  canvas, so the model takes the renderer's \<open>getCanvas\<close> method. \<open>dimensions\<close> is
  optional: a reference to a vector, or absent (\<open>None\<close>), in which case a new
  vector is made from the canvas size. The swap writes the fields of the vector
  \<open>dimensions\<close> refers to, and that same reference is returned.
\<close>

definition getNewDimensions ::
  "('r \<Rightarrow> canvas) \<Rightarrow> addr option \<Rightarrow> 'r env \<Rightarrow> addr \<times> 'r env" where
  "getNewDimensions getCanvas dimensions s =
    (let canvas = getCanvas (renderer s);
         (dims, h1) = (case dimensions of
                         Some a \<Rightarrow> (a, heap s)
                       | None \<Rightarrow> new_Vector2 (width canvas) (height canvas) (heap s));
         actualDegrees = js_rem (degrees (options s)) 360;
         h2 = (if js_rem actualDegrees 180 \<noteq> 0 then
                 (let tempX = vec_x (h1 ! dims);
                      h' = h1[dims := (h1 ! dims)\<lparr>vec_x := vec_y (h1 ! dims)\<rparr>]
                  in h'[dims := (h' ! dims)\<lparr>vec_y := tempX\<rparr>])
               else h1)
     in (dims, s\<lparr>heap := h2\<rparr>))"

text \<open>The vector with the two components exchanged.\<close>

definition swapped :: "Vector2 \<Rightarrow> Vector2" where
  "swapped v = \<lparr>vec_x = vec_y v, vec_y = vec_x v\<rparr>"

subsection \<open>Construction and validation\<close>

text \<open>
  \<open>availableOptions.degrees\<close> declares the type \<open>number\<close>, the default \<open>0\<close> and a
  validator that throws unless the value is a multiple of 90.
\<close>

record 'a option_config =
  default_value :: 'a
  validation :: "('a \<Rightarrow> error + unit) option"

definition degrees_validation :: "int \<Rightarrow> error + unit" where
  "degrees_validation v =
    (if js_rem v 90 \<noteq> 0
     then Inl (Error ''RotationOperation: `rotation` has to be a multiple of 90.'')
     else Inr ())"

definition availableOptions_degrees :: "int option_config" where
  "availableOptions_degrees = \<lparr>default_value = 0, validation = Some degrees_validation\<rparr>"

text \<open>
  Modelled from the spec: the constructor of the base class \<open>Operation\<close>
  (\<open>operations/operation.js\<close>), which \<open>super(...args)\<close> runs, is not among the sources.
  The spec: for every declared option, if absent, the default is substituted; if
  present, the declared validator (if any) is invoked and a validation failure aborts
  construction with a descriptive error.
\<close>

definition Operation_initOption :: "'a option_config \<Rightarrow> 'a option \<Rightarrow> error + 'a" where
  "Operation_initOption config given =
    (case given of
       None \<Rightarrow> Inr (default_value config)
     | Some v \<Rightarrow>
        (case validation config of
           None \<Rightarrow> Inr v
         | Some check \<Rightarrow> (case check v of Inl e \<Rightarrow> Inl e | Inr _ \<Rightarrow> Inr v)))"

text \<open>\<open>new RotationOperation ({degrees: d})\<close>; \<open>None\<close> is an options object without
  \<open>degrees\<close>. The result is the operation's \<open>_options\<close>, or the error thrown.\<close>

definition RotationOperation :: "int option \<Rightarrow> error + options" where
  "RotationOperation given =
    (case Operation_initOption availableOptions_degrees given of
       Inl e \<Rightarrow> Inl e
     | Inr d \<Rightarrow> Inr \<lparr>degrees = d\<rparr>)"

subsection \<open>The WebGL strategy\<close>

text \<open>
  The GL context has one texture bound at a time; \<open>texImage2D\<close> with no pixel data
  gives the bound texture a new size. The trace records, in order, every write to
  the canvas size, every GL call the strategy makes and every shader run.
\<close>

type_synonym texture = nat

datatype gl_call =
    SetCanvasWidth real
  | SetCanvasHeight real
  | BindTexture texture
  | TexImage2D texture real real
  | RunShader texture "real list"

text \<open>
  Modelled from the spec: the WebGL renderer (\<open>getCanvas\<close>, \<open>getTextures\<close>,
  \<open>getCurrentTexture\<close>, \<open>getLastTexture\<close>) is not among the sources. The spec: a
  destination surface, auxiliary surfaces and the surface being read from. The
  renderer owns a canvas, a list of textures, the current texture (drawn into) and
  the last texture (the input, read from); the getters read these fields.
\<close>

record WebGLRenderer =
  gl_canvas :: canvas
  textures :: "texture list"
  currentTexture :: texture
  lastTexture :: texture
  bound :: "texture option"
  tex_size :: "texture \<Rightarrow> real \<times> real"
  trace :: "gl_call list"

definition set_canvas_width :: "real \<Rightarrow> WebGLRenderer \<Rightarrow> WebGLRenderer" where
  "set_canvas_width w r =
    r\<lparr>gl_canvas := set_width w (gl_canvas r), trace := trace r @ [SetCanvasWidth w]\<rparr>"

definition set_canvas_height :: "real \<Rightarrow> WebGLRenderer \<Rightarrow> WebGLRenderer" where
  "set_canvas_height h r =
    r\<lparr>gl_canvas := set_height h (gl_canvas r), trace := trace r @ [SetCanvasHeight h]\<rparr>"

definition bindTexture :: "texture \<Rightarrow> WebGLRenderer \<Rightarrow> WebGLRenderer" where
  "bindTexture t r = r\<lparr>bound := Some t, trace := trace r @ [BindTexture t]\<rparr>"

definition texImage2D :: "real \<Rightarrow> real \<Rightarrow> WebGLRenderer \<Rightarrow> WebGLRenderer" where
  "texImage2D w h r =
    (case bound r of
       None \<Rightarrow> r
     | Some t \<Rightarrow> r\<lparr>tex_size := (tex_size r)(t := (w, h)),
                    trace := trace r @ [TexImage2D t w h]\<rparr>)"

text \<open>\<open>gl.texImage2D (..., canvas.width, canvas.height, ..., null)\<close>: the size is read
  from the canvas at the time of the call.\<close>

definition resize_bound :: "WebGLRenderer \<Rightarrow> WebGLRenderer" where
  "resize_bound r = texImage2D (width (gl_canvas r)) (height (gl_canvas r)) r"

text \<open>
  Modelled from the spec: \<open>renderer.runShader\<close> (the WebGL renderer) is not among the
  sources. The spec: the accelerated strategy redraws via a shader. The draw reads
  the renderer's last texture with the given matrix; it changes no size.
\<close>

definition runShader :: "real list \<Rightarrow> WebGLRenderer \<Rightarrow> WebGLRenderer" where
  "runShader matrix r = r\<lparr>trace := trace r @ [RunShader (lastTexture r) matrix]\<rparr>"

text \<open>The loop over \<open>renderer.getTextures ()\<close>, which skips the input texture.\<close>

primrec resize_others :: "texture \<Rightarrow> texture list \<Rightarrow> WebGLRenderer \<Rightarrow> WebGLRenderer" where
  "resize_others lastT [] r = r"
| "resize_others lastT (t # ts) r =
    (if t = lastT then resize_others lastT ts r
     else resize_others lastT ts (resize_bound (bindTexture t r)))"

definition rotationMatrix :: "real \<Rightarrow> real list" where
  "rotationMatrix radians =
    (let c = cos radians; s = sin radians
     in [c, - s, 0,
         s, c, 0,
         0, 0, 1])"

definition renderWebGL :: "WebGLRenderer env \<Rightarrow> WebGLRenderer env" where
  "renderWebGL s =
    (let actualDegrees = js_rem (degrees (options s)) 360;
         lastT = lastTexture (renderer s);
         s1 = (if js_rem actualDegrees 180 \<noteq> 0 then
                 (let (newDimensions, s') = getNewDimensions gl_canvas None s;
                      r1 = set_canvas_width (vec_x (heap s' ! newDimensions)) (renderer s');
                      r2 = set_canvas_height (vec_y (heap s' ! newDimensions)) r1;
                      r3 = resize_bound (bindTexture (currentTexture r2) r2);
                      r4 = resize_others lastT (textures r3) r3
                  in s'\<lparr>renderer := r4\<rparr>)
               else s);
         radians = real_of_int actualDegrees * (pi / 180);
         r5 = runShader (rotationMatrix radians) (renderer s1);
         r6 = resize_bound (bindTexture lastT r5)
     in s1\<lparr>renderer := r6\<rparr>)"

subsection \<open>The Canvas2D strategy\<close>

text \<open>
  Modelled from the spec: the canvas renderer is not among the sources. The spec: the
  render surface is a mutable resource with pixel dimensions and pixel content. The
  renderer holds the active canvas (what \<open>getCanvas\<close> returns) and the blank canvas
  it hands out on request.
\<close>

record CanvasRenderer =
  cr_canvas :: canvas
  blank_canvas :: canvas

text \<open>Modelled from the spec: \<open>renderer.createCanvas\<close> is not among the sources. The
  spec: the fallback strategy creates a new surface.\<close>

definition createCanvas :: "CanvasRenderer \<Rightarrow> canvas" where
  "createCanvas r = blank_canvas r"

text \<open>Modelled from the spec: \<open>renderer.cloneCanvas\<close> is not among the sources. The
  spec: the prior content is drawn; the clone is a copy of the active canvas.\<close>

definition cloneCanvas :: "CanvasRenderer \<Rightarrow> canvas" where
  "cloneCanvas r = cr_canvas r"

text \<open>Modelled from the spec: \<open>renderer.setCanvas\<close> is not among the sources. The spec:
  the fallback strategy replaces the active surface.\<close>

definition setCanvas :: "canvas \<Rightarrow> CanvasRenderer \<Rightarrow> CanvasRenderer" where
  "setCanvas c r = r\<lparr>cr_canvas := c\<rparr>"

definition renderCanvas :: "CanvasRenderer env \<Rightarrow> CanvasRenderer env" where
  "renderCanvas s =
    (let canvas = cr_canvas (renderer s);
         actualDegrees = js_rem (degrees (options s)) 360;
         (newDimensions, s') = getNewDimensions cr_canvas None s;
         c0 = createCanvas (renderer s');
         c1 = set_width (vec_x (heap s' ! newDimensions)) c0;
         c2 = set_height (vec_y (heap s' ! newDimensions)) c1;
         c3 = ctx Save c2;
         c4 = ctx (Translate (width c3 / 2) (height c3 / 2)) c3;
         c5 = ctx (Rotate (real_of_int actualDegrees * (pi / 180))) c4;
         tempCanvas = cloneCanvas (renderer s');
         c6 = ctx (DrawImage tempCanvas (- width canvas / 2) (- height canvas / 2)) c5;
         newCanvas = ctx Restore c6
     in s'\<lparr>renderer := setCanvas newCanvas (renderer s')\<rparr>)"

section \<open>The ImglyKit class\<close>

text \<open>
  A JavaScript argument that is \<open>undefined\<close>, \<open>null\<close> or an object. The \<open>ui\<close> option
  is \<open>true\<close>, \<open>false\<close> or the identifier of a registered UI. Images and containers are
  handles.
\<close>

datatype 'a js_value = Undefined | Null | Object 'a

datatype ui_option = UiBool bool | UiName string

record kit_options =
  opt_image :: "nat js_value"
  opt_assetsUrl :: "string option"
  opt_container :: "nat js_value"
  opt_ui :: "ui_option option"
  opt_renderer :: "string option"

text \<open>A UI class has an identifier on its prototype; \<open>new UI (kit, {container,
  assetsUrl})\<close> followed by \<open>attach ()\<close> gives the kit its UI.\<close>

record ui_class =
  ui_identifier :: string

record attached_ui =
  ui_class_of :: ui_class
  ui_container :: "nat js_value"
  ui_assetsUrl :: "string option"

text \<open>The fields of an instance; \<open>None\<close> is a field not assigned yet.\<close>

record kit =
  kit_options :: "kit_options option"
  registeredUIs :: "(string \<times> ui_class) list option"
  operationsStack :: "options list option"
  kit_ui :: "attached_ui option"

text \<open>\<open>_.defaults (options, {assetsUrl: "assets", container: null, ui: true})\<close> fills
  in the properties that are \<open>undefined\<close>.\<close>

definition defaults :: "kit_options \<Rightarrow> kit_options" where
  "defaults opts =
    opts\<lparr>opt_assetsUrl := (case opt_assetsUrl opts of None \<Rightarrow> Some ''assets'' | Some u \<Rightarrow> Some u),
         opt_container := (case opt_container opts of Undefined \<Rightarrow> Null | c \<Rightarrow> c),
         opt_ui := (case opt_ui opts of None \<Rightarrow> Some (UiBool True) | Some u \<Rightarrow> Some u)\<rparr>"

text \<open>\<open>object[key] = value\<close> on an object kept as a list of properties in insertion
  order. The keys are UI identifiers: names that are neither array indices (which
  JavaScript enumerates first) nor properties every object inherits (such as
  \<open>toString\<close>); for those the list is not the object.\<close>

primrec obj_set :: "string \<Rightarrow> 'v \<Rightarrow> (string \<times> 'v) list \<Rightarrow> (string \<times> 'v) list" where
  "obj_set k v [] = [(k, v)]"
| "obj_set k v (p # ps) = (if fst p = k then (k, v) # ps else p # obj_set k v ps)"

definition registerUI :: "ui_class \<Rightarrow> kit \<Rightarrow> error + kit" where
  "registerUI ui this =
    (case registeredUIs this of
       None \<Rightarrow> Inl TypeError
     | Some uis \<Rightarrow> Inr (this\<lparr>registeredUIs := Some (obj_set (ui_identifier ui) ui uis)\<rparr>))"

text \<open>\<open>_registerUIs\<close> registers the default UI, \<open>NightUI\<close>; that class is not among the
  sources and is a parameter.\<close>

definition registerUIs :: "ui_class \<Rightarrow> kit \<Rightarrow> error + kit" where
  "registerUIs NightUI this = registerUI NightUI this"

definition truthy :: "ui_option option \<Rightarrow> bool" where
  "truthy u = (case u of None \<Rightarrow> False | Some (UiBool b) \<Rightarrow> b | Some (UiName n) \<Rightarrow> n \<noteq> [])"

definition ui_to_string :: "ui_option option \<Rightarrow> string" where
  "ui_to_string u =
    (case u of
       None \<Rightarrow> ''undefined''
     | Some (UiBool b) \<Rightarrow> (if b then ''true'' else ''false'')
     | Some (UiName n) \<Rightarrow> n)"

text \<open>\<open>_initUI\<close>. With \<open>ui === true\<close> the first registered UI is taken
  (\<open>Utils.values (this._registeredUIs)[0]\<close>), otherwise the one registered under the
  value of \<open>ui\<close>; none found is an error.\<close>

definition initUI :: "kit \<Rightarrow> error + kit" where
  "initUI this =
    (case kit_options this of
       None \<Rightarrow> Inl TypeError
     | Some opts \<Rightarrow>
        (case registeredUIs this of
           None \<Rightarrow> Inl TypeError
         | Some uis \<Rightarrow>
            (let UI = (if opt_ui opts = Some (UiBool True)
                       then (case map snd uis of [] \<Rightarrow> None | u # _ \<Rightarrow> Some u)
                       else map_of uis (ui_to_string (opt_ui opts)))
             in case UI of
                  None \<Rightarrow> Inl (Error (''ImglyKit: Unknown UI: '' @ ui_to_string (opt_ui opts)))
                | Some u \<Rightarrow>
                    Inr (this\<lparr>kit_ui := Some \<lparr>ui_class_of = u,
                                               ui_container = opt_container opts,
                                               ui_assetsUrl = opt_assetsUrl opts\<rparr>\<rparr>))))"

text \<open>
  The constructor \<open>ImglyKit (options)\<close>, run on the instance \<open>this\<close> with the
  argument \<open>given\<close> (the source's \<open>options\<close>). The result is what
  the constructor throws, if anything, and the instance as the constructor leaves it.
\<close>

definition ImglyKit :: "ui_class \<Rightarrow> kit_options js_value \<Rightarrow> kit \<Rightarrow> (error + unit) \<times> kit" where
  "ImglyKit NightUI given this =
    (case given of
       Undefined \<Rightarrow> (Inl (Error ''No options given.''), this)
     | Null \<Rightarrow> (Inl TypeError, this)
     | Object opts \<Rightarrow>
        if opt_image opts = Undefined
        then (Inl (Error ''`options.image` is undefined.''), this)
        else
          (let opts' = defaults opts;
               this1 = this\<lparr>kit_options := Some opts'\<rparr>;
               this2 = this1\<lparr>registeredUIs := Some []\<rparr>;
               this3 = this2\<lparr>operationsStack := Some []\<rparr>
           in case registerUIs NightUI this3 of
                Inl e \<Rightarrow> (Inl e, this3)
              | Inr this4 \<Rightarrow>
                  if truthy (opt_ui opts')
                  then (case initUI this4 of
                          Inl e \<Rightarrow> (Inl e, this4)
                        | Inr this5 \<Rightarrow> (Inr (), this5))
                  else (Inr (), this4)))"

text \<open>An instance none of whose fields is assigned: what \<open>new\<close> hands to the constructor.\<close>

definition new_kit :: kit where
  "new_kit = \<lparr>kit_options = None, registeredUIs = None, operationsStack = None, kit_ui = None\<rparr>"

subsection \<open>Rendering\<close>

text \<open>
  \<open>render\<close> calls \<open>ImageExporter.validateSettings\<close>, constructs a \<open>RenderImage\<close>, starts
  its \<open>render ()\<close> and returns the promise, to which the export is chained by \<open>then\<close>.
  The log records these calls in order; the promise holds the settings the chained
  export will run with once the render pass is done. \<open>validateSettings\<close> is not among
  the sources and is a parameter: it returns the settings or throws.
\<close>

record ('t, 'f) settings =
  renderType :: 't
  imageFormat :: 'f

datatype ('t, 'f) kit_event =
    ValidateSettings_call "'t option" "'f option"
  | RenderImage_new "nat js_value" "options list option" "string option" "string option"
  | RenderImage_render

record ('t, 'f) promise =
  then_export :: "('t, 'f) settings"

definition render ::
  "('t option \<Rightarrow> 'f option \<Rightarrow> error + ('t, 'f) settings) \<Rightarrow>
   't option \<Rightarrow> 'f option \<Rightarrow> string option \<Rightarrow> kit \<Rightarrow> ('t, 'f) kit_event list \<Rightarrow>
   (error + ('t, 'f) promise) \<times> ('t, 'f) kit_event list" where
  "render validateSettings rType iFormat dimensions this prior =
    (let log0 = prior @ [ValidateSettings_call rType iFormat]
     in case validateSettings rType iFormat of
          Inl e \<Rightarrow> (Inl e, log0)
        | Inr settings \<Rightarrow>
           (let rType' = renderType settings;
                iFormat' = imageFormat settings
            in case kit_options this of
                 None \<Rightarrow> (Inl TypeError, log0)
               | Some opts \<Rightarrow>
                  (let log1 = log0 @ [RenderImage_new (opt_image opts) (operationsStack this)
                                        dimensions (opt_renderer opts)];
                       log2 = log1 @ [RenderImage_render]
                   in (Inr \<lparr>then_export = \<lparr>renderType = rType', imageFormat = iFormat'\<rparr>\<rparr>,
                       log2))))"

text \<open>
  Modelled from the spec: \<open>ImageExporter.validateSettings\<close> (\<open>lib/image-exporter\<close>) is
  not among the sources. The spec: it validates the combination of encoding and
  delivery mode against a fixed allowed set and fails with a descriptive error on an
  unsupported combination. The allowed set, the defaults that replace absent
  arguments and the message are parameters.
\<close>

definition validateSettings ::
  "('t \<times> 'f) list \<Rightarrow> ('t, 'f) settings \<Rightarrow> string \<Rightarrow>
   't option \<Rightarrow> 'f option \<Rightarrow> error + ('t, 'f) settings" where
  "validateSettings allowed dflt message rType iFormat =
    (let t = (case rType of None \<Rightarrow> renderType dflt | Some t \<Rightarrow> t);
         f = (case iFormat of None \<Rightarrow> imageFormat dflt | Some f \<Rightarrow> f)
     in if (t, f) \<in> set allowed
        then Inr \<lparr>renderType = t, imageFormat = f\<rparr>
        else Inl (Error message))"

section \<open>Vector arithmetic and the crop knobs\<close>

text \<open>
  The methods of the class \<open>Vector2\<close> (\<open>lib/math/vector2\<close>) are not among the sources.
  Each function below gives the components the receiver holds after the call.
\<close>

text \<open>Modelled from the spec: \<open>Vector2.add\<close> is not among the sources. The spec: add
  works component-wise.\<close>

definition vec_add :: "Vector2 \<Rightarrow> Vector2 \<Rightarrow> Vector2" where
  "vec_add v u = \<lparr>vec_x = vec_x v + vec_x u, vec_y = vec_y v + vec_y u\<rparr>"

text \<open>Modelled from the spec: \<open>Vector2.subtract\<close> is not among the sources. The spec:
  subtract works component-wise.\<close>

definition vec_subtract :: "Vector2 \<Rightarrow> Vector2 \<Rightarrow> Vector2" where
  "vec_subtract v u = \<lparr>vec_x = vec_x v - vec_x u, vec_y = vec_y v - vec_y u\<rparr>"

text \<open>
  Modelled from the spec: \<open>Vector2.clamp\<close> is not among the sources. The spec:
  \<open>clamp (min, max)\<close> treats a \<open>null\<close> bound as no constraint on that side and
  clamps independently per axis; with \<open>min.x > max.x\<close> it yields \<open>x = min.x\<close> (min
  wins). On one component: the upper bound is applied first, the lower bound after
  it, so the lower bound has the last word. \<open>None\<close> is an absent bound.
\<close>

definition clamp1 :: "real option \<Rightarrow> real option \<Rightarrow> real \<Rightarrow> real" where
  "clamp1 lo hi c =
    (let c1 = (case hi of None \<Rightarrow> c | Some h \<Rightarrow> min h c)
     in case lo of None \<Rightarrow> c1 | Some l \<Rightarrow> max l c1)"

text \<open>Modelled from the spec: \<open>Vector2.clamp\<close>, as above, on both components of the
  receiver.\<close>

definition clamp :: "Vector2 option \<Rightarrow> Vector2 option \<Rightarrow> Vector2 \<Rightarrow> Vector2" where
  "clamp minimum maximum v =
    \<lparr>vec_x = clamp1 (map_option vec_x minimum) (map_option vec_x maximum) (vec_x v),
     vec_y = clamp1 (map_option vec_y minimum) (map_option vec_y maximum) (vec_y v)\<rparr>"

text \<open>
  The two cases of \<open>_onKnobDrag\<close> that clamp, on the absolute corners: the top-left
  knob moves the start and keeps it at least the minimum size away from the end; the
  bottom-right knob moves the end and keeps it at least the minimum size away from
  the start. Each returns the pair \<open>(absoluteStart, absoluteEnd)\<close>.
\<close>

definition knob_drag_top_left ::
  "Vector2 \<Rightarrow> Vector2 \<Rightarrow> Vector2 \<Rightarrow> Vector2 \<Rightarrow> Vector2 \<times> Vector2" where
  "knob_drag_top_left minimumSize mouseDiff absoluteStart absoluteEnd =
    (let absoluteStart1 = vec_add absoluteStart mouseDiff;
         maximum = vec_subtract absoluteEnd minimumSize;
         absoluteStart2 = clamp None (Some maximum) absoluteStart1
     in (absoluteStart2, absoluteEnd))"

definition knob_drag_bottom_right ::
  "Vector2 \<Rightarrow> Vector2 \<Rightarrow> Vector2 \<Rightarrow> Vector2 \<Rightarrow> Vector2 \<times> Vector2" where
  "knob_drag_bottom_right minimumSize mouseDiff absoluteStart absoluteEnd =
    (let absoluteEnd1 = vec_add absoluteEnd mouseDiff;
         minimum = vec_add absoluteStart minimumSize;
         absoluteEnd2 = clamp (Some minimum) None absoluteEnd1
     in (absoluteStart, absoluteEnd2))"

section \<open>Example inputs\<close>

text \<open>
  An environment whose renderer is a bare \<open>w \<times> h\<close> canvas (its \<open>getCanvas\<close> is the
  identity) and whose store holds one vector \<open>(w, h)\<close> at address 0, the dimensions
  vector a caller passes in.
\<close>

definition rotation_env :: "int \<Rightarrow> real \<Rightarrow> real \<Rightarrow> canvas env" where
  "rotation_env d w h =
    \<lparr>options = \<lparr>degrees = d\<rparr>, renderer = Canvas w h [], heap = [\<lparr>vec_x = w, vec_y = h\<rparr>]\<rparr>"

text \<open>A WebGL renderer with the two textures 1 (current) and 2 (last, the input).\<close>

definition webgl_env :: "int \<Rightarrow> real \<Rightarrow> real \<Rightarrow> WebGLRenderer env" where
  "webgl_env d w h =
    \<lparr>options = \<lparr>degrees = d\<rparr>,
     renderer = \<lparr>gl_canvas = Canvas w h [], textures = [1, 2], currentTexture = 1,
                 lastTexture = 2, bound = None, tex_size = (\<lambda>t. (w, h)), trace = []\<rparr>,
     heap = []\<rparr>"

text \<open>A canvas renderer whose blank canvases start at \<open>300 \<times> 150\<close>.\<close>

definition canvas_env :: "int \<Rightarrow> real \<Rightarrow> real \<Rightarrow> CanvasRenderer env" where
  "canvas_env d w h =
    \<lparr>options = \<lparr>degrees = d\<rparr>,
     renderer = \<lparr>cr_canvas = Canvas w h [], blank_canvas = Canvas 300 150 []\<rparr>,
     heap = []\<rparr>"

text \<open>Options with an image but no UI, and options that lack the image.\<close>

definition kit_options_ok :: kit_options where
  "kit_options_ok =
    \<lparr>opt_image = Object 7, opt_assetsUrl = None, opt_container = Undefined,
     opt_ui = Some (UiBool False), opt_renderer = None\<rparr>"

definition kit_options_no_image :: kit_options where
  "kit_options_no_image = kit_options_ok\<lparr>opt_image := Undefined\<rparr>"

text \<open>An exporter that allows PNG as a data URL only.\<close>

definition png_only :: "string option \<Rightarrow> string option \<Rightarrow> error + (string, string) settings" where
  "png_only =
    validateSettings [(''data-url'', ''image/png'')]
      \<lparr>renderType = ''data-url'', imageFormat = ''image/png''\<rparr>
      ''unsupported combination''"

section \<open>Facts about the remainder\<close>

lemma js_rem_eq_0_iff: "b \<noteq> 0 \<Longrightarrow> js_rem a b = 0 \<longleftrightarrow> b dvd a"
  by (auto simp: js_rem_def sgn_if mod_eq_0_iff_dvd)

lemma js_rem_cong: "b dvd (a - js_rem a b)"
proof -
  have "\<bar>b\<bar> dvd (\<bar>a\<bar> - \<bar>a\<bar> mod \<bar>b\<bar>)"
    by (rule dvd_minus_mod)
  then have "b dvd (\<bar>a\<bar> - \<bar>a\<bar> mod \<bar>b\<bar>)"
    by (simp only: abs_dvd_iff)
  then have "b dvd sgn a * (\<bar>a\<bar> - \<bar>a\<bar> mod \<bar>b\<bar>)"
    by (rule dvd_mult)
  moreover have "sgn a * (\<bar>a\<bar> - \<bar>a\<bar> mod \<bar>b\<bar>) = a - js_rem a b"
    by (simp add: js_rem_def right_diff_distrib sgn_if)
  ultimately show ?thesis by simp
qed

lemma swap_test_iff: "js_rem (js_rem d 360) 180 \<noteq> 0 \<longleftrightarrow> d mod 180 \<noteq> 0"
proof -
  have "(360::int) dvd (d - js_rem d 360)"
    by (rule js_rem_cong)
  then have "(180::int) dvd (d - js_rem d 360)"
    by (rule dvd_trans [rotated]) simp
  then have "180 dvd js_rem d 360 \<longleftrightarrow> 180 dvd d"
    by (metis dvd_diff_commute zdvd_zdiffD)
  then show ?thesis
    by (simp add: js_rem_eq_0_iff mod_eq_0_iff_dvd)
qed

section \<open>Facts about vectors and \<open>getNewDimensions\<close>\<close>

lemma Vector2_update_both: "(v::Vector2)\<lparr>vec_x := a, vec_y := b\<rparr> = \<lparr>vec_x = a, vec_y = b\<rparr>"
  by (cases v) simp

lemma swapped_swapped: "swapped (swapped v) = v"
  by (cases v) (simp add: swapped_def)

lemma swapped_eq_iff: "swapped v = v \<longleftrightarrow> vec_x v = vec_y v"
  by (cases v) (auto simp: swapped_def)

lemma getNewDimensions_Some:
  "a < length (heap s) \<Longrightarrow>
   getNewDimensions gc (Some a) s =
     (a, s\<lparr>heap := (heap s)[a := (if degrees (options s) mod 180 \<noteq> 0
                                   then swapped (heap s ! a) else heap s ! a)]\<rparr>)"
  by (simp add: getNewDimensions_def Let_def swap_test_iff swapped_def Vector2_update_both)

lemma getNewDimensions_None:
  "getNewDimensions gc None s =
     (length (heap s),
      s\<lparr>heap := heap s @
         [if degrees (options s) mod 180 \<noteq> 0
          then \<lparr>vec_x = height (gc (renderer s)), vec_y = width (gc (renderer s))\<rparr>
          else \<lparr>vec_x = width (gc (renderer s)), vec_y = height (gc (renderer s))\<rparr>]\<rparr>)"
  by (simp add: getNewDimensions_def Let_def swap_test_iff new_Vector2_def)

lemma rotation_env_live: "0 < length (heap (rotation_env d w h))"
  by (simp add: rotation_env_def)

section \<open>C1: what \<open>getNewDimensions\<close> changes\<close>

text \<open>
  C1 as stated (calling \<open>getNewDimensions\<close> twice with the same vector \<open>D\<close> gives the
  same result, and \<open>D\<close> is not mutated) fails: with \<open>degrees = 90\<close> and \<open>D = (100, 200)\<close>
  the call exchanges the components of \<open>D\<close> itself, and a second call on the same
  \<open>D\<close> returns \<open>(100, 200)\<close> where the first returned \<open>(200, 100)\<close>.
\<close>

theorem getNewDimensions_pure_counterexample:
  "heap (snd (getNewDimensions id (Some 0) (rotation_env 90 100 200))) ! 0
     \<noteq> heap (rotation_env 90 100 200) ! 0 \<and>
   heap (snd (getNewDimensions id (Some 0)
              (snd (getNewDimensions id (Some 0) (rotation_env 90 100 200))))) !
     fst (getNewDimensions id (Some 0)
              (snd (getNewDimensions id (Some 0) (rotation_env 90 100 200))))
     \<noteq> heap (snd (getNewDimensions id (Some 0) (rotation_env 90 100 200))) !
         fst (getNewDimensions id (Some 0) (rotation_env 90 100 200))"
  by (simp add: getNewDimensions_def rotation_env_def js_rem_def Let_def)

text \<open>
  C1, amended: given a vector \<open>D\<close> (a live reference \<open>a\<close>), \<open>getNewDimensions\<close> returns
  \<open>D\<close> itself and changes neither the operation's options, nor the renderer, nor any
  other vector. When \<open>degrees mod 180 = 0\<close> it changes nothing at all; otherwise it
  exchanges the two components of \<open>D\<close> in place. A second call on the same \<open>D\<close>
  restores the environment the first call started from.
\<close>

theorem getNewDimensions_effect:
  assumes "a < length (heap s)"
  shows "fst (getNewDimensions gc (Some a) s) = a \<and>
    options (snd (getNewDimensions gc (Some a) s)) = options s \<and>
    renderer (snd (getNewDimensions gc (Some a) s)) = renderer s \<and>
    length (heap (snd (getNewDimensions gc (Some a) s))) = length (heap s) \<and>
    (\<forall>b. b \<noteq> a \<longrightarrow> heap (snd (getNewDimensions gc (Some a) s)) ! b = heap s ! b) \<and>
    (degrees (options s) mod 180 = 0 \<longrightarrow> snd (getNewDimensions gc (Some a) s) = s) \<and>
    (degrees (options s) mod 180 \<noteq> 0 \<longrightarrow>
       heap (snd (getNewDimensions gc (Some a) s)) ! a = swapped (heap s ! a)) \<and>
    snd (getNewDimensions gc (Some a) (snd (getNewDimensions gc (Some a) s))) = s"
  using assms by (simp add: getNewDimensions_Some swapped_swapped)

theorem getNewDimensions_effect_witness:
  "heap (snd (getNewDimensions id (Some 0) (rotation_env 90 100 200))) ! 0
     = \<lparr>vec_x = 200, vec_y = 100\<rparr> \<and>
   snd (getNewDimensions id (Some 0) (snd (getNewDimensions id (Some 0) (rotation_env 90 100 200))))
     = rotation_env 90 100 200 \<and>
   snd (getNewDimensions id (Some 0) (rotation_env 180 100 200)) = rotation_env 180 100 200"
  using getNewDimensions_effect [of 0 "rotation_env 90 100 200" id, OF rotation_env_live]
    getNewDimensions_effect [of 0 "rotation_env 180 100 200" id, OF rotation_env_live]
  by (simp add: rotation_env_def swapped_def)

section \<open>C2: the dimension rule of the rotation\<close>

text \<open>
  C2 as stated fails in its second half (the input dimensions come back unchanged if
  and only if \<open>degrees mod 360 = 0\<close>): \<open>degrees = 180\<close> passes validation, \<open>180 mod 360\<close>
  is not 0, and \<open>(100, 200)\<close> comes back unchanged.
\<close>

theorem rotation_identity_counterexample:
  "degrees_validation 180 = Inr () \<and>
   \<not> (heap (snd (getNewDimensions id (Some 0) (rotation_env 180 100 200))) ! 0
        = heap (rotation_env 180 100 200) ! 0
      \<longleftrightarrow> (180::int) mod 360 = 0)"
  by (simp add: getNewDimensions_def rotation_env_def degrees_validation_def js_rem_def Let_def)

text \<open>
  C2, amended: for every degrees value (validated or not), \<open>getNewDimensions\<close>
  exchanges width and height if and only if \<open>degrees mod 180 \<noteq> 0\<close>; the dimensions come
  back unchanged if and only if \<open>degrees mod 180 = 0\<close> or the input is square. Without
  a dimensions argument the result is a new vector holding the canvas size, exchanged
  under the same condition; a \<open>100 \<times> 200\<close> source with \<open>degrees = 90\<close> gives
  \<open>200 \<times> 100\<close>.
\<close>

theorem rotation_dimensions_rule:
  assumes "a < length (heap s)"
  shows "fst (getNewDimensions gc (Some a) s) = a \<and>
    heap (snd (getNewDimensions gc (Some a) s)) ! a =
      (if degrees (options s) mod 180 \<noteq> 0 then swapped (heap s ! a) else heap s ! a) \<and>
    (heap (snd (getNewDimensions gc (Some a) s)) ! a = heap s ! a \<longleftrightarrow>
      degrees (options s) mod 180 = 0 \<or> vec_x (heap s ! a) = vec_y (heap s ! a)) \<and>
    heap (snd (getNewDimensions gc None s)) ! fst (getNewDimensions gc None s) =
      (if degrees (options s) mod 180 \<noteq> 0
       then \<lparr>vec_x = height (gc (renderer s)), vec_y = width (gc (renderer s))\<rparr>
       else \<lparr>vec_x = width (gc (renderer s)), vec_y = height (gc (renderer s))\<rparr>)"
  using assms by (simp add: getNewDimensions_Some getNewDimensions_None swapped_eq_iff)

theorem rotation_dimensions_rule_witness:
  "degrees_validation 90 = Inr () \<and>
   heap (snd (getNewDimensions id (Some 0) (rotation_env 90 100 200))) ! 0
     = \<lparr>vec_x = 200, vec_y = 100\<rparr> \<and>
   heap (snd (getNewDimensions id None (rotation_env 90 100 200))) ! 1
     = \<lparr>vec_x = 200, vec_y = 100\<rparr>"
  using rotation_dimensions_rule [of 0 "rotation_env 90 100 200" id, OF rotation_env_live]
  by (simp add: rotation_env_def swapped_def degrees_validation_def js_rem_def
      getNewDimensions_def new_Vector2_def Let_def)

section \<open>C3: validation at construction\<close>

lemma message_mentions_constraint:
  "sublist ''multiple of 90'' ''RotationOperation: `rotation` has to be a multiple of 90.''"
  by code_simp

text \<open>
  C3: constructing a rotation operation with a degrees value that is not a multiple of
  90 fails with an error whose message contains "multiple of 90"; with a multiple of
  90 it succeeds and the operation holds that value. A failed construction yields no
  operation, so none of the render methods, which run on an operation's options, can
  be reached.
\<close>

theorem rotation_degrees_validation:
  "(\<not> 90 dvd d \<longrightarrow>
      (\<exists>msg. RotationOperation (Some d) = Inl (Error msg) \<and> sublist ''multiple of 90'' msg)) \<and>
   (90 dvd d \<longrightarrow> RotationOperation (Some d) = Inr \<lparr>degrees = d\<rparr>)"
  by (simp add: RotationOperation_def Operation_initOption_def availableOptions_degrees_def
      degrees_validation_def js_rem_eq_0_iff message_mentions_constraint)

theorem rotation_degrees_validation_witness:
  "(\<exists>msg. RotationOperation (Some 45) = Inl (Error msg) \<and> sublist ''multiple of 90'' msg) \<and>
   RotationOperation (Some 270) = Inr \<lparr>degrees = 270\<rparr>"
  using rotation_degrees_validation [of 45] rotation_degrees_validation [of 270]
  by simp

section \<open>Facts about the two render strategies\<close>

lemma resize_others_frame:
  "gl_canvas (resize_others lastT ts r) = gl_canvas r"
  "lastTexture (resize_others lastT ts r) = lastTexture r"
  by (induction ts arbitrary: r) (simp_all add: resize_bound_def bindTexture_def texImage2D_def)

lemma resize_others_trace:
  "trace (resize_others lastT ts r) =
     trace r @ concat (map (\<lambda>t. [BindTexture t, TexImage2D t (width (gl_canvas r)) (height (gl_canvas r))])
                        (filter (\<lambda>t. t \<noteq> lastT) ts))"
  by (induction ts arbitrary: r) (simp_all add: resize_bound_def bindTexture_def texImage2D_def)

lemma renderWebGL_canvas:
  "gl_canvas (renderer (renderWebGL s)) =
     (if degrees (options s) mod 180 \<noteq> 0
      then Canvas (height (gl_canvas (renderer s))) (width (gl_canvas (renderer s)))
                  (calls (gl_canvas (renderer s)))
      else gl_canvas (renderer s))"
  by (simp add: renderWebGL_def Let_def swap_test_iff getNewDimensions_None resize_others_frame
      resize_bound_def bindTexture_def texImage2D_def runShader_def set_canvas_width_def
      set_canvas_height_def set_width_def set_height_def)

lemma renderCanvas_canvas:
  "cr_canvas (renderer (renderCanvas s)) =
     Canvas (if degrees (options s) mod 180 \<noteq> 0 then height (cr_canvas (renderer s))
             else width (cr_canvas (renderer s)))
            (if degrees (options s) mod 180 \<noteq> 0 then width (cr_canvas (renderer s))
             else height (cr_canvas (renderer s)))
       (calls (blank_canvas (renderer s)) @
        [Save,
         Translate ((if degrees (options s) mod 180 \<noteq> 0 then height (cr_canvas (renderer s))
                     else width (cr_canvas (renderer s))) / 2)
                   ((if degrees (options s) mod 180 \<noteq> 0 then width (cr_canvas (renderer s))
                     else height (cr_canvas (renderer s))) / 2),
         Rotate (real_of_int (js_rem (degrees (options s)) 360) * (pi / 180)),
         DrawImage (cr_canvas (renderer s)) (- width (cr_canvas (renderer s)) / 2)
                   (- height (cr_canvas (renderer s)) / 2),
         Restore])"
  by (simp add: renderCanvas_def Let_def getNewDimensions_None createCanvas_def cloneCanvas_def
      setCanvas_def ctx_def set_width_def set_height_def)

lemma renderWebGL_trace:
  "trace (renderer (renderWebGL s)) =
     trace (renderer s) @
     (if degrees (options s) mod 180 \<noteq> 0 then
        [SetCanvasWidth (height (gl_canvas (renderer s))),
         SetCanvasHeight (width (gl_canvas (renderer s))),
         BindTexture (currentTexture (renderer s)),
         TexImage2D (currentTexture (renderer s)) (height (gl_canvas (renderer s)))
                    (width (gl_canvas (renderer s)))] @
        concat (map (\<lambda>t. [BindTexture t,
                           TexImage2D t (height (gl_canvas (renderer s)))
                                      (width (gl_canvas (renderer s)))])
                  (filter (\<lambda>t. t \<noteq> lastTexture (renderer s)) (textures (renderer s))))
      else []) @
     [RunShader (lastTexture (renderer s))
        (rotationMatrix (real_of_int (js_rem (degrees (options s)) 360) * (pi / 180))),
      BindTexture (lastTexture (renderer s)),
      TexImage2D (lastTexture (renderer s))
        (if degrees (options s) mod 180 \<noteq> 0 then height (gl_canvas (renderer s)) else width (gl_canvas (renderer s)))
        (if degrees (options s) mod 180 \<noteq> 0 then width (gl_canvas (renderer s)) else height (gl_canvas (renderer s)))]"
  by (simp add: renderWebGL_def Let_def swap_test_iff getNewDimensions_None resize_others_frame
      resize_others_trace
      resize_bound_def bindTexture_def texImage2D_def runShader_def set_canvas_width_def
      set_canvas_height_def set_width_def set_height_def)



section \<open>C4: both strategies leave the same dimensions\<close>

text \<open>
  C4: run on surfaces of the same size by operations with the same options, the WebGL
  strategy and the Canvas2D strategy leave canvases of the same width and height,
  those \<open>getNewDimensions\<close> returns (exchanged when \<open>degrees mod 180 \<noteq> 0\<close>, unchanged
  otherwise). Both rotate by the same angle, \<open>degrees % 360\<close> in radians: the one
  shader run of the WebGL strategy gets the matrix
  \<open>[cos, -sin, 0, sin, cos, 0, 0, 0, 1]\<close> of that angle, and the 2D context is
  rotated by that angle between the translation to the centre and the drawing of
  the prior canvas. The remainder differs from \<open>degrees\<close> by a multiple of 360.
\<close>

theorem render_strategies_agree:
  assumes "options sg = options sc"
    and "width (gl_canvas (renderer sg)) = width (cr_canvas (renderer sc))"
    and "height (gl_canvas (renderer sg)) = height (cr_canvas (renderer sc))"
  shows "width (gl_canvas (renderer (renderWebGL sg)))
           = width (cr_canvas (renderer (renderCanvas sc))) \<and>
    height (gl_canvas (renderer (renderWebGL sg)))
           = height (cr_canvas (renderer (renderCanvas sc))) \<and>
    width (cr_canvas (renderer (renderCanvas sc)))
           = vec_x (heap (snd (getNewDimensions cr_canvas None sc)) !
                    fst (getNewDimensions cr_canvas None sc)) \<and>
    height (cr_canvas (renderer (renderCanvas sc)))
           = vec_y (heap (snd (getNewDimensions cr_canvas None sc)) !
                    fst (getNewDimensions cr_canvas None sc)) \<and>
    (width (cr_canvas (renderer (renderCanvas sc))), height (cr_canvas (renderer (renderCanvas sc))))
           = (if degrees (options sc) mod 180 \<noteq> 0
              then (height (cr_canvas (renderer sc)), width (cr_canvas (renderer sc)))
              else (width (cr_canvas (renderer sc)), height (cr_canvas (renderer sc)))) \<and>
    RunShader (lastTexture (renderer sg))
        [cos (real_of_int (js_rem (degrees (options sc)) 360) * (pi / 180)),
         - sin (real_of_int (js_rem (degrees (options sc)) 360) * (pi / 180)), 0,
         sin (real_of_int (js_rem (degrees (options sc)) 360) * (pi / 180)),
         cos (real_of_int (js_rem (degrees (options sc)) 360) * (pi / 180)), 0,
         0, 0, 1]
      \<in> set (trace (renderer (renderWebGL sg))) \<and>
    (\<forall>t m. RunShader t m \<in> set (trace (renderer (renderWebGL sg))) \<longrightarrow>
       RunShader t m \<in> set (trace (renderer sg)) \<or>
       m = [cos (real_of_int (js_rem (degrees (options sc)) 360) * (pi / 180)),
            - sin (real_of_int (js_rem (degrees (options sc)) 360) * (pi / 180)), 0,
            sin (real_of_int (js_rem (degrees (options sc)) 360) * (pi / 180)),
            cos (real_of_int (js_rem (degrees (options sc)) 360) * (pi / 180)), 0,
            0, 0, 1]) \<and>
    calls (cr_canvas (renderer (renderCanvas sc))) =
      calls (blank_canvas (renderer sc)) @
      [Save,
       Translate (width (cr_canvas (renderer (renderCanvas sc))) / 2)
                 (height (cr_canvas (renderer (renderCanvas sc))) / 2),
       Rotate (real_of_int (js_rem (degrees (options sc)) 360) * (pi / 180)),
       DrawImage (cr_canvas (renderer sc)) (- width (cr_canvas (renderer sc)) / 2)
                 (- height (cr_canvas (renderer sc)) / 2),
       Restore] \<and>
    360 dvd (degrees (options sc) - js_rem (degrees (options sc)) 360)"
  using assms
  by (auto simp add: renderWebGL_canvas renderCanvas_canvas renderWebGL_trace getNewDimensions_None
      js_rem_cong rotationMatrix_def Let_def)

theorem render_strategies_agree_witness:
  "gl_canvas (renderer (renderWebGL (webgl_env 90 100 200))) = Canvas 200 100 [] \<and>
   width (cr_canvas (renderer (renderCanvas (canvas_env 90 100 200)))) = 200 \<and>
   height (cr_canvas (renderer (renderCanvas (canvas_env 90 100 200)))) = 100 \<and>
   RunShader 2 [0, - 1, 0, 1, 0, 0, 0, 0, 1]
     \<in> set (trace (renderer (renderWebGL (webgl_env 90 100 200)))) \<and>
   Rotate (90 * (pi / 180))
     \<in> set (calls (cr_canvas (renderer (renderCanvas (canvas_env 90 100 200)))))"
proof -
  have a: "options (webgl_env 90 100 200) = options (canvas_env 90 100 200)"
    by (simp add: webgl_env_def canvas_env_def)
  have b: "width (gl_canvas (renderer (webgl_env 90 100 200)))
             = width (cr_canvas (renderer (canvas_env 90 100 200)))"
    by (simp add: webgl_env_def canvas_env_def)
  have c: "height (gl_canvas (renderer (webgl_env 90 100 200)))
             = height (cr_canvas (renderer (canvas_env 90 100 200)))"
    by (simp add: webgl_env_def canvas_env_def)
  have d: "calls (gl_canvas (renderer (renderWebGL (webgl_env 90 100 200)))) = []"
    by (simp add: renderWebGL_canvas webgl_env_def)
  have e: "js_rem (degrees (options (canvas_env 90 100 200))) 360 = 90"
    by (simp add: canvas_env_def js_rem_def)
  have f: "lastTexture (renderer (webgl_env 90 100 200)) = 2"
    by (simp add: webgl_env_def)
  show ?thesis
    using render_strategies_agree [OF a b c] d
    by (cases "gl_canvas (renderer (renderWebGL (webgl_env 90 100 200)))")
       (simp add: e f, simp add: canvas_env_def)
qed

section \<open>C5: the input texture is resized last\<close>




text \<open>
  The resize of the current texture is made without comparing it with the input
  texture. With a renderer whose current texture is its input texture, that resize
  hits the input texture before the shader run; the statement above neither
  promises nor excludes anything for such a renderer beyond the trace itself.
\<close>

lemma renderWebGL_current_is_input:
  "trace (renderer (renderWebGL
      ((webgl_env 90 100 200)\<lparr>renderer :=
          (renderer (webgl_env 90 100 200))\<lparr>currentTexture := 2\<rparr>\<rparr>)))
     = [SetCanvasWidth 200, SetCanvasHeight 100,
        BindTexture 2, TexImage2D 2 200 100,
        BindTexture 1, TexImage2D 1 200 100,
        RunShader 2 [0, - 1, 0, 1, 0, 0, 0, 0, 1],
        BindTexture 2, TexImage2D 2 200 100]"
  by (simp add: renderWebGL_trace webgl_env_def js_rem_def rotationMatrix_def Let_def)

section \<open>C6: the steps of the Canvas2D strategy\<close>

text \<open>
  C6: the Canvas2D strategy leaves as the renderer's canvas a new canvas with the
  dimensions \<open>getNewDimensions\<close> returns, whose context has received, in this order:
  \<open>save\<close>, a translation to the centre of the new canvas, a rotation by
  \<open>degrees % 360\<close> in radians, \<open>drawImage\<close> of the prior canvas at
  \<open>(-oldWidth / 2, -oldHeight / 2)\<close>, and \<open>restore\<close>.
\<close>

theorem renderCanvas_steps:
  "let canvas = cr_canvas (renderer s);
       g = getNewDimensions cr_canvas None s;
       W = vec_x (heap (snd g) ! fst g);
       H = vec_y (heap (snd g) ! fst g)
   in cr_canvas (renderer (renderCanvas s)) =
        Canvas W H
          (calls (blank_canvas (renderer s)) @
           [Save,
            Translate (W / 2) (H / 2),
            Rotate (real_of_int (js_rem (degrees (options s)) 360) * (pi / 180)),
            DrawImage canvas (- (width canvas / 2)) (- (height canvas / 2)),
            Restore])"
  by (simp add: Let_def renderCanvas_canvas getNewDimensions_None)

theorem renderCanvas_steps_witness:
  "cr_canvas (renderer (renderCanvas (canvas_env 90 100 200))) =
     Canvas 200 100
       [Save, Translate 100 50, Rotate (90 * (pi / 180)),
        DrawImage (Canvas 100 200 []) (- 50) (- 100), Restore]"
  using renderCanvas_steps [of "canvas_env 90 100 200"]
  by (simp add: Let_def getNewDimensions_None) (simp add: canvas_env_def js_rem_def)

section \<open>C7: render validates its settings first\<close>

text \<open>
  C7: whatever \<open>validateSettings\<close> is, if it throws on the given render type and
  image format, \<open>render\<close> throws the same error, and the call of \<open>validateSettings\<close>
  is all that has happened: no \<open>RenderImage\<close> is constructed, no render pass is
  started and no promise with a chained export exists. If it returns settings, the
  \<open>RenderImage\<close> is constructed and its render started after the validation, and the
  chained export gets the validated settings. In particular, with the
  validator of the spec, a combination outside the allowed set fails this way.
\<close>

theorem render_validates_first:
  "(vs rType iFormat = Inl e \<longrightarrow>
      render vs rType iFormat dimensions this prior
        = (Inl e, prior @ [ValidateSettings_call rType iFormat])) \<and>
   (vs rType iFormat = Inr st \<longrightarrow> kit_options this = Some opts \<longrightarrow>
      render vs rType iFormat dimensions this prior
        = (Inr \<lparr>then_export = st\<rparr>,
           prior @ [ValidateSettings_call rType iFormat,
                     RenderImage_new (opt_image opts) (operationsStack this) dimensions
                       (opt_renderer opts),
                     RenderImage_render])) \<and>
   ((t, f) \<notin> set allowed \<longrightarrow>
      render (validateSettings allowed dflt message) (Some t) (Some f) dimensions this prior
        = (Inl (Error message), prior @ [ValidateSettings_call (Some t) (Some f)]))"
  by (simp add: render_def Let_def validateSettings_def)

theorem render_validates_first_witness:
  "render png_only (Some ''data-url'') (Some ''image/jpeg'') None
      (snd (ImglyKit \<lparr>ui_identifier = ''night''\<rparr> (Object kit_options_ok) new_kit)) []
     = (Inl (Error ''unsupported combination''),
        [ValidateSettings_call (Some ''data-url'') (Some ''image/jpeg'')]) \<and>
   render png_only None None None
      (snd (ImglyKit \<lparr>ui_identifier = ''night''\<rparr> (Object kit_options_ok) new_kit)) []
     = (Inr \<lparr>then_export = \<lparr>renderType = ''data-url'', imageFormat = ''image/png''\<rparr>\<rparr>,
        [ValidateSettings_call None None,
         RenderImage_new (Object 7) (Some []) None None,
         RenderImage_render])"
proof -
  have bad: "png_only (Some ''data-url'') (Some ''image/jpeg'')
               = Inl (Error ''unsupported combination'')"
    by (simp add: png_only_def validateSettings_def)
  have good: "png_only None None = Inr \<lparr>renderType = ''data-url'', imageFormat = ''image/png''\<rparr>"
    by (simp add: png_only_def validateSettings_def)
  have k: "snd (ImglyKit \<lparr>ui_identifier = ''night''\<rparr> (Object kit_options_ok) new_kit)
     = \<lparr>kit_options = Some (defaults kit_options_ok),
        registeredUIs = Some [(''night'', \<lparr>ui_identifier = ''night''\<rparr>)],
        operationsStack = Some [], kit_ui = None\<rparr>"
    by (simp add: ImglyKit_def kit_options_ok_def new_kit_def Let_def registerUIs_def
        registerUI_def defaults_def truthy_def)
  have o: "kit_options \<lparr>kit_options = Some (defaults kit_options_ok),
        registeredUIs = Some [(''night'', \<lparr>ui_identifier = ''night''\<rparr>)],
        operationsStack = Some [], kit_ui = None\<rparr> = Some (defaults kit_options_ok)"
    by simp
  show ?thesis
    unfolding k
    using render_validates_first [where vs = png_only and rType = "Some ''data-url''"
        and iFormat = "Some ''image/jpeg''" and e = "Error ''unsupported combination''"
        and dimensions = None and prior = "[]"]
      render_validates_first [where vs = png_only and rType = None and iFormat = None
        and dimensions = None and prior = "[]"
        and st = "\<lparr>renderType = ''data-url'', imageFormat = ''image/png''\<rparr>"
        and opts = "defaults kit_options_ok"]
      bad good o
    by (simp add: defaults_def kit_options_ok_def)
qed

section \<open>C8: rendering leaves the options alone\<close>

text \<open>
  C8: after either strategy the operation's options are what they were before, and
  so is every vector that existed before (the strategies only allocate a new one).
\<close>

theorem render_leaves_options:
  "options (renderWebGL s) = options s \<and>
   take (length (heap s)) (heap (renderWebGL s)) = heap s \<and>
   options (renderCanvas s') = options s' \<and>
   take (length (heap s')) (heap (renderCanvas s')) = heap s'"
  by (simp add: renderWebGL_def renderCanvas_def Let_def getNewDimensions_None)

theorem render_leaves_options_witness:
  "options (renderWebGL (webgl_env 90 100 200)) = \<lparr>degrees = 90\<rparr> \<and>
   options (renderCanvas (canvas_env 90 100 200)) = \<lparr>degrees = 90\<rparr>"
  using render_leaves_options [of "webgl_env 90 100 200" "canvas_env 90 100 200"]
  by (simp add: webgl_env_def canvas_env_def)

section \<open>C9: clamping a vector\<close>

lemma clamp1_simps:
  "clamp1 None None c = c"
  "clamp1 None (Some h) c = min h c"
  "clamp1 (Some l) None c = max l c"
  "clamp1 (Some l) (Some h) c = max l (min h c)"
  by (simp_all add: clamp1_def)

text \<open>
  C9: \<open>clamp (null, max)\<close> bounds each component from above only, \<open>clamp (min, null)\<close>
  from below only, and without bounds nothing changes; each component of the result
  depends on the same component of the bounds and of the vector only. When
  \<open>min.x > max.x\<close> the result's \<open>x\<close> is \<open>min.x\<close> (likewise for \<open>y\<close>); when
  \<open>min.x \<le> max.x\<close> it lies between the two.
\<close>

theorem clamp_bounds:
  "clamp None (Some mx) v
     = \<lparr>vec_x = min (vec_x mx) (vec_x v), vec_y = min (vec_y mx) (vec_y v)\<rparr> \<and>
   clamp (Some mn) None v
     = \<lparr>vec_x = max (vec_x mn) (vec_x v), vec_y = max (vec_y mn) (vec_y v)\<rparr> \<and>
   clamp None None v = v \<and>
   vec_x (clamp (Some mn) (Some mx) v) = max (vec_x mn) (min (vec_x mx) (vec_x v)) \<and>
   vec_y (clamp (Some mn) (Some mx) v) = max (vec_y mn) (min (vec_y mx) (vec_y v)) \<and>
   (vec_x mx < vec_x mn \<longrightarrow> vec_x (clamp (Some mn) (Some mx) v) = vec_x mn) \<and>
   (vec_y mx < vec_y mn \<longrightarrow> vec_y (clamp (Some mn) (Some mx) v) = vec_y mn) \<and>
   (vec_x mn \<le> vec_x mx \<longrightarrow>
      vec_x mn \<le> vec_x (clamp (Some mn) (Some mx) v) \<and>
      vec_x (clamp (Some mn) (Some mx) v) \<le> vec_x mx) \<and>
   (vec_y mn \<le> vec_y mx \<longrightarrow>
      vec_y mn \<le> vec_y (clamp (Some mn) (Some mx) v) \<and>
      vec_y (clamp (Some mn) (Some mx) v) \<le> vec_y mx)"
  by (simp add: clamp_def clamp1_simps)

theorem clamp_bounds_witness:
  "clamp None (Some \<lparr>vec_x = 5, vec_y = 5\<rparr>) \<lparr>vec_x = 3, vec_y = 9\<rparr> = \<lparr>vec_x = 3, vec_y = 5\<rparr> \<and>
   clamp (Some \<lparr>vec_x = 5, vec_y = 5\<rparr>) None \<lparr>vec_x = 3, vec_y = 9\<rparr> = \<lparr>vec_x = 5, vec_y = 9\<rparr> \<and>
   vec_x (clamp (Some \<lparr>vec_x = 8, vec_y = 0\<rparr>) (Some \<lparr>vec_x = 2, vec_y = 4\<rparr>) \<lparr>vec_x = 5, vec_y = 9\<rparr>) = 8 \<and>
   vec_y (clamp (Some \<lparr>vec_x = 8, vec_y = 0\<rparr>) (Some \<lparr>vec_x = 2, vec_y = 4\<rparr>) \<lparr>vec_x = 5, vec_y = 9\<rparr>) = 4"
  using clamp_bounds [of "\<lparr>vec_x = 5, vec_y = 5\<rparr>" "\<lparr>vec_x = 3, vec_y = 9\<rparr>" "\<lparr>vec_x = 5, vec_y = 5\<rparr>"]
    clamp_bounds [of "\<lparr>vec_x = 2, vec_y = 4\<rparr>" "\<lparr>vec_x = 5, vec_y = 9\<rparr>" "\<lparr>vec_x = 8, vec_y = 0\<rparr>"]
  by simp

text \<open>What the clamps are for in the crop controls: after a drag of the top-left or the
  bottom-right knob the two corners are at least the minimum size apart.\<close>

lemma knob_drag_top_left_keeps_minimum:
  "knob_drag_top_left minimumSize mouseDiff absoluteStart absoluteEnd = (st, en) \<Longrightarrow>
   en = absoluteEnd \<and>
   vec_x st \<le> vec_x en - vec_x minimumSize \<and> vec_y st \<le> vec_y en - vec_y minimumSize"
  by (auto simp: knob_drag_top_left_def Let_def clamp_def clamp1_simps vec_subtract_def)

lemma knob_drag_bottom_right_keeps_minimum:
  "knob_drag_bottom_right minimumSize mouseDiff absoluteStart absoluteEnd = (st, en) \<Longrightarrow>
   st = absoluteStart \<and>
   vec_x st + vec_x minimumSize \<le> vec_x en \<and> vec_y st + vec_y minimumSize \<le> vec_y en"
  by (auto simp: knob_drag_bottom_right_def Let_def clamp_def clamp1_simps vec_add_def)

section \<open>C10: the constructor requires its options\<close>

lemma registerUI_kit_options:
  "registerUI ui this = Inr this' \<Longrightarrow> kit_options this' = kit_options this"
  by (auto simp: registerUI_def split: option.splits)

lemma initUI_kit_options:
  "initUI this = Inr this' \<Longrightarrow> kit_options this' = kit_options this"
  by (auto simp: initUI_def Let_def split: option.splits if_splits)

lemma ImglyKit_sets_options:
  "opt_image opts \<noteq> Undefined \<Longrightarrow>
   kit_options (snd (ImglyKit NightUI (Object opts) this)) = Some (defaults opts)"
  by (auto simp: ImglyKit_def Let_def registerUIs_def registerUI_def
      dest!: initUI_kit_options split: sum.splits)

text \<open>
  C10: constructing an ImglyKit with \<open>undefined\<close> options throws an error with the
  message "No options given.", and with options whose \<open>image\<close> is \<open>undefined\<close> an error
  with the message "`options.image` is undefined."; in both cases the instance is
  left exactly as it was, no field assigned. With an image, the constructor does
  assign the options (with the defaults filled in), whatever happens afterwards.
\<close>

theorem ImglyKit_requires_options:
  "ImglyKit NightUI Undefined this = (Inl (Error ''No options given.''), this) \<and>
   (opt_image opts = Undefined \<longrightarrow>
      ImglyKit NightUI (Object opts) this
        = (Inl (Error ''`options.image` is undefined.''), this)) \<and>
   (opt_image opts \<noteq> Undefined \<longrightarrow>
      kit_options (snd (ImglyKit NightUI (Object opts) this)) = Some (defaults opts))"
proof (intro conjI impI)
  show "ImglyKit NightUI Undefined this = (Inl (Error ''No options given.''), this)"
    by (simp add: ImglyKit_def)
next
  assume "opt_image opts = Undefined"
  then show "ImglyKit NightUI (Object opts) this
               = (Inl (Error ''`options.image` is undefined.''), this)"
    by (simp add: ImglyKit_def)
next
  assume "opt_image opts \<noteq> Undefined"
  then show "kit_options (snd (ImglyKit NightUI (Object opts) this)) = Some (defaults opts)"
    by (rule ImglyKit_sets_options)
qed

theorem ImglyKit_requires_options_witness:
  "ImglyKit \<lparr>ui_identifier = ''night''\<rparr> Undefined new_kit
     = (Inl (Error ''No options given.''), new_kit) \<and>
   ImglyKit \<lparr>ui_identifier = ''night''\<rparr> (Object kit_options_no_image) new_kit
     = (Inl (Error ''`options.image` is undefined.''), new_kit) \<and>
   kit_options (snd (ImglyKit \<lparr>ui_identifier = ''night''\<rparr> (Object kit_options_ok) new_kit))
     = Some (defaults kit_options_ok)"
  using ImglyKit_requires_options [of "\<lparr>ui_identifier = ''night''\<rparr>" new_kit kit_options_no_image]
    ImglyKit_requires_options [of "\<lparr>ui_identifier = ''night''\<rparr>" new_kit kit_options_ok]
  by (simp add: kit_options_no_image_def kit_options_ok_def)

end
